theory Spec2Isabelle
  imports Main "HOL-Library.Word" "HOL-Library.Sublist"
begin

section \<open>JavaScript strings\<close>

text \<open>
  The adapter \<^verbatim>\<open>src/adapter/openai-to-cli.ts\<close> works on JavaScript strings, which are
  sequences of 16-bit UTF-16 code units. A string is a list of 16-bit words; \<open>js\<close> embeds
  an ASCII literal of the source, one code unit per character.
\<close>

type_synonym jschar = "16 word"
type_synonym jsstring = "jschar list"

definition js :: "string \<Rightarrow> jsstring" where
  "js s = map of_char s"

text \<open>
  \<^verbatim>\<open>Array.prototype.join\<close> on an array of strings: the empty array gives the empty
  string, otherwise the elements with the separator between neighbours.
\<close>

fun join :: "jsstring \<Rightarrow> jsstring list \<Rightarrow> jsstring" where
  "join sep [] = []"
| "join sep [x] = x"
| "join sep (x # y # ys) = x @ sep @ join sep (y # ys)"

text \<open>
  \<^verbatim>\<open>String.prototype.trim\<close> removes the code units of the ECMAScript productions
  WhiteSpace and LineTerminator from both ends: TAB, LF, VT, FF, CR, SP, NBSP, the
  Unicode space separators (U+1680, U+2000 to U+200A, U+202F, U+205F, U+3000), the line
  and paragraph separators U+2028 and U+2029, and the byte order mark U+FEFF.
\<close>

definition isWhiteSpace :: "jschar \<Rightarrow> bool" where
  "isWhiteSpace c \<longleftrightarrow>
     c \<in> {0x0009, 0x000A, 0x000B, 0x000C, 0x000D, 0x0020, 0x00A0, 0x1680,
          0x2028, 0x2029, 0x202F, 0x205F, 0x3000, 0xFEFF}
     \<or> (0x2000 \<le> c \<and> c \<le> 0x200A)"

definition trimStart :: "jsstring \<Rightarrow> jsstring" where
  "trimStart s = dropWhile isWhiteSpace s"

definition trimEnd :: "jsstring \<Rightarrow> jsstring" where
  "trimEnd s = rev (dropWhile isWhiteSpace (rev s))"

definition trim :: "jsstring \<Rightarrow> jsstring" where
  "trim s = trimEnd (trimStart s)"


section \<open>Model resolver\<close>

datatype ClaudeModel = opus | sonnet | haiku

text \<open>
  \<^verbatim>\<open>MODEL_MAP\<close> is an object literal, so besides its nine own properties it inherits the
  members of \<^verbatim>\<open>Object.prototype\<close>. A property read \<^verbatim>\<open>MODEL_MAP[key]\<close> therefore yields
  one of the tier strings (own property), an inherited member (a function, or for
  \<^verbatim>\<open>__proto__\<close> the prototype object itself), or \<^verbatim>\<open>undefined\<close>, here \<open>None\<close>.
\<close>

datatype PropertyValue = Tier ClaudeModel | Inherited jsstring

definition MODEL_MAP :: "(jsstring \<times> ClaudeModel) list" where
  "MODEL_MAP =
    [(js ''claude-opus-4'', opus),
     (js ''claude-sonnet-4'', sonnet),
     (js ''claude-haiku-4'', haiku),
     (js ''claude-code-cli/claude-opus-4'', opus),
     (js ''claude-code-cli/claude-sonnet-4'', sonnet),
     (js ''claude-code-cli/claude-haiku-4'', haiku),
     (js ''opus'', opus),
     (js ''sonnet'', sonnet),
     (js ''haiku'', haiku)]"

definition ObjectPrototype :: "jsstring list" where
  "ObjectPrototype =
    [js ''constructor'', js ''hasOwnProperty'', js ''isPrototypeOf'',
     js ''propertyIsEnumerable'', js ''toLocaleString'', js ''toString'',
     js ''valueOf'', js ''__proto__'', js ''__defineGetter__'',
     js ''__defineSetter__'', js ''__lookupGetter__'', js ''__lookupSetter__'']"

definition MODEL_MAP_get :: "jsstring \<Rightarrow> PropertyValue option" where
  "MODEL_MAP_get key =
     (case map_of MODEL_MAP key of
        Some t \<Rightarrow> Some (Tier t)
      | None \<Rightarrow> if key \<in> set ObjectPrototype then Some (Inherited key) else None)"

text \<open>
  \<^verbatim>\<open>model.replace(/^claude-code-cli\//, "")\<close>: the pattern is anchored at the start of
  the input and has no flags, so at most the one leading occurrence is removed.
\<close>

definition stripProviderPrefix :: "jsstring \<Rightarrow> jsstring" where
  "stripProviderPrefix model =
     (if prefix (js ''claude-code-cli/'') model
      then drop (length (js ''claude-code-cli/'')) model else model)"

text \<open>
  Every value a property read can yield here is truthy (a non-empty string, a function
  or an object), so the test \<^verbatim>\<open>if (MODEL_MAP[model])\<close> fails on \<^verbatim>\<open>undefined\<close> only.
\<close>

definition extractModel :: "jsstring \<Rightarrow> PropertyValue" where
  "extractModel model =
     (case MODEL_MAP_get model of
        Some v \<Rightarrow> v
      | None \<Rightarrow>
          (let stripped = stripProviderPrefix model in
           case MODEL_MAP_get stripped of
             Some v \<Rightarrow> v
           | None \<Rightarrow> Tier opus))"

text \<open>
  The resolver as section 4.1 of the specification words it: a lookup in the fixed table
  of aliases, full names and prefixed full names, then the same lookup on the input
  without its leading provider prefix, then the default tier.
\<close>

definition tier_table_spec :: "jsstring \<rightharpoonup> ClaudeModel" where
  "tier_table_spec =
     [js ''opus'' \<mapsto> opus, js ''sonnet'' \<mapsto> sonnet, js ''haiku'' \<mapsto> haiku,
      js ''claude-opus-4'' \<mapsto> opus, js ''claude-sonnet-4'' \<mapsto> sonnet,
      js ''claude-haiku-4'' \<mapsto> haiku,
      js ''claude-code-cli/claude-opus-4'' \<mapsto> opus,
      js ''claude-code-cli/claude-sonnet-4'' \<mapsto> sonnet,
      js ''claude-code-cli/claude-haiku-4'' \<mapsto> haiku]"

definition extractModel_spec :: "jsstring \<Rightarrow> ClaudeModel" where
  "extractModel_spec model =
     (case tier_table_spec model of
        Some t \<Rightarrow> t
      | None \<Rightarrow>
          (case tier_table_spec (stripProviderPrefix model) of
             Some t \<Rightarrow> t
           | None \<Rightarrow> opus))"


section \<open>JavaScript values\<close>

text \<open>
  Modelled from the spec: the declaration of \<^verbatim>\<open>OpenAIChatRequest\<close> in
  \<^verbatim>\<open>src/types/openai.ts\<close> is not part of the sources at hand. Section 6 of the
  specification gives a request the fields \<^verbatim>\<open>model\<close> (string), \<^verbatim>\<open>messages\<close> (a sequence
  of role and content) and \<^verbatim>\<open>user\<close> (optional string). The role is a string, since the
  loop compares it with three literals and passes over any other. The content is any
  value a parsed request body can hold: \<^verbatim>\<open>extractText\<close> tests its shape at run time and
  has a branch for values outside its declared parameter type.

  A number is named by its rendering under \<^verbatim>\<open>Number::toString\<close>, which identifies it up
  to the sign of zero; the adapter observes a number through that rendering and through
  its truthiness only. An object is the list of its own properties in source order; of
  two properties with one name the later one counts.
\<close>

datatype jsvalue =
    JUndefined
  | JNull
  | JBoolean bool
  | JNumber jsstring
  | JString jsstring
  | JArray "jsvalue list"
  | JObject "(jsstring \<times> jsvalue) list"

datatype exception = TypeError

text \<open>
  Evaluating a list of computations from left to right: the first exception ends it.
\<close>

fun sequence :: "(exception + 'a) list \<Rightarrow> exception + 'a list" where
  "sequence [] = Inr []"
| "sequence (r # rs) =
     (case r of
        Inl e \<Rightarrow> Inl e
      | Inr x \<Rightarrow> (case sequence rs of Inl e \<Rightarrow> Inl e | Inr xs \<Rightarrow> Inr (x # xs)))"

text \<open>
  The abstract operation \<^verbatim>\<open>ToString\<close>, which \<^verbatim>\<open>String(value)\<close> and \<^verbatim>\<open>Array.prototype.join\<close>
  apply. An array is rendered by \<^verbatim>\<open>Array.prototype.toString\<close>, that is by \<^verbatim>\<open>join(",")\<close>, and
  \<^verbatim>\<open>join\<close> renders an element that is \<^verbatim>\<open>undefined\<close> or \<^verbatim>\<open>null\<close> as the empty string. An object
  goes through \<^verbatim>\<open>OrdinaryToPrimitive\<close>: the inherited \<^verbatim>\<open>Object.prototype.toString\<close> gives
  \<^verbatim>\<open>[object Object]\<close>; an own property \<^verbatim>\<open>toString\<close> shadows it, and since no parsed value is
  callable and \<^verbatim>\<open>valueOf\<close> (own or inherited) yields no primitive, the conversion then
  throws a \<^verbatim>\<open>TypeError\<close>.
\<close>

fun ToString :: "jsvalue \<Rightarrow> exception + jsstring"
  and elementString :: "jsvalue \<Rightarrow> exception + jsstring" where
  "ToString JUndefined = Inr (js ''undefined'')"
| "ToString JNull = Inr (js ''null'')"
| "ToString (JBoolean b) = Inr (if b then js ''true'' else js ''false'')"
| "ToString (JNumber rendering) = Inr rendering"
| "ToString (JString s) = Inr s"
| "ToString (JArray elements) =
     (case sequence (map elementString elements) of
        Inl e \<Rightarrow> Inl e
      | Inr parts \<Rightarrow> Inr (join (js '','') parts))"
| "ToString (JObject properties) =
     (if js ''toString'' \<in> set (map fst properties) then Inl TypeError
      else Inr (js ''[object Object]''))"
| "elementString e =
     (case e of JUndefined \<Rightarrow> Inr [] | JNull \<Rightarrow> Inr [] | _ \<Rightarrow> ToString e)"

text \<open>
  \<^verbatim>\<open>Array.prototype.join\<close> on an array of values.
\<close>

definition joinValues :: "jsstring \<Rightarrow> jsvalue list \<Rightarrow> exception + jsstring" where
  "joinValues sep elements =
     (case sequence (map elementString elements) of
        Inl e \<Rightarrow> Inl e
      | Inr parts \<Rightarrow> Inr (join sep parts))"

text \<open>
  \<^verbatim>\<open>ToBoolean\<close>, the truthiness of a value.
\<close>

fun ToBoolean :: "jsvalue \<Rightarrow> bool" where
  "ToBoolean JUndefined = False"
| "ToBoolean JNull = False"
| "ToBoolean (JBoolean b) = b"
| "ToBoolean (JNumber rendering) = (rendering \<noteq> js ''0'' \<and> rendering \<noteq> js ''NaN'')"
| "ToBoolean (JString s) = (s \<noteq> [])"
| "ToBoolean (JArray elements) = True"
| "ToBoolean (JObject properties) = True"

text \<open>
  The property reads \<^verbatim>\<open>block.type\<close> and \<^verbatim>\<open>block.text\<close>. Neither name is defined on a
  built-in prototype, so the read yields the own property of an object and \<^verbatim>\<open>undefined\<close>
  on every other value, except on \<^verbatim>\<open>undefined\<close> and \<^verbatim>\<open>null\<close>, where it throws.
\<close>

fun readProperty :: "jsvalue \<Rightarrow> jsstring \<Rightarrow> exception + jsvalue" where
  "readProperty JUndefined name = Inl TypeError"
| "readProperty JNull name = Inl TypeError"
| "readProperty (JObject properties) name =
     Inr (case map_of (rev properties) name of None \<Rightarrow> JUndefined | Some v \<Rightarrow> v)"
| "readProperty other name = Inr JUndefined"


section \<open>Message flattener\<close>

record ChatMessage =
  role :: jsstring
  content :: jsvalue

text \<open>
  The callback of \<^verbatim>\<open>filter\<close>, \<^verbatim>\<open>block.type === "text" && block.text\<close>: the second read
  happens only when the first comparison holds.
\<close>

definition isTextBlock :: "jsvalue \<Rightarrow> exception + bool" where
  "isTextBlock block =
     (case readProperty block (js ''type'') of
        Inl e \<Rightarrow> Inl e
      | Inr ty \<Rightarrow>
          if ty = JString (js ''text'') then
            (case readProperty block (js ''text'') of
               Inl e \<Rightarrow> Inl e
             | Inr tx \<Rightarrow> Inr (ToBoolean tx))
          else Inr False)"

fun filterBlocks :: "jsvalue list \<Rightarrow> exception + jsvalue list" where
  "filterBlocks [] = Inr []"
| "filterBlocks (block # blocks) =
     (case isTextBlock block of
        Inl e \<Rightarrow> Inl e
      | Inr keep \<Rightarrow>
          (case filterBlocks blocks of
             Inl e \<Rightarrow> Inl e
           | Inr rest \<Rightarrow> Inr (if keep then block # rest else rest)))"

fun extractText :: "jsvalue \<Rightarrow> exception + jsstring" where
  "extractText (JString s) = Inr s"
| "extractText (JArray blocks) =
     (case filterBlocks blocks of
        Inl e \<Rightarrow> Inl e
      | Inr selected \<Rightarrow>
          (case sequence (map (\<lambda>block. readProperty block (js ''text'')) selected) of
             Inl e \<Rightarrow> Inl e
           | Inr texts \<Rightarrow> joinValues (js ''\<newline>'') texts))"
| "extractText other = ToString other"

definition previous_response :: "jsstring \<Rightarrow> jsstring" where
  "previous_response t =
     js ''<previous_response>\<newline>'' @ t @ js ''\<newline></previous_response>\<newline>''"

text \<open>
  The \<^verbatim>\<open>for\<close> loop of \<^verbatim>\<open>messagesToPrompt\<close>, with the two arrays it pushes to as the
  state \<open>(systemParts, promptParts)\<close>. The text of a message is extracted before its role
  is looked at, so an exception of the extraction ends the loop whatever the role.
\<close>

fun collectParts ::
  "ChatMessage list \<Rightarrow> jsstring list \<times> jsstring list
     \<Rightarrow> exception + jsstring list \<times> jsstring list" where
  "collectParts [] (systemParts, promptParts) = Inr (systemParts, promptParts)"
| "collectParts (msg # msgs) (systemParts, promptParts) =
     (case extractText (content msg) of
        Inl e \<Rightarrow> Inl e
      | Inr t \<Rightarrow>
          if role msg = js ''system'' then
            collectParts msgs (systemParts @ [t], promptParts)
          else if role msg = js ''user'' then
            collectParts msgs (systemParts, promptParts @ [t])
          else if role msg = js ''assistant'' then
            collectParts msgs (systemParts, promptParts @ [previous_response t])
          else
            collectParts msgs (systemParts, promptParts))"

record PromptPair =
  prompt :: jsstring
  systemPrompt :: "jsstring option"

definition messagesToPrompt :: "ChatMessage list \<Rightarrow> exception + PromptPair" where
  "messagesToPrompt messages =
     (case collectParts messages ([], []) of
        Inl e \<Rightarrow> Inl e
      | Inr (systemParts, promptParts) \<Rightarrow>
          Inr \<lparr> prompt = trim (join (js ''\<newline>'') promptParts),
                systemPrompt =
                  (if length systemParts > 0
                   then Some (join (js ''\<newline>\<newline>'') systemParts)
                   else None) \<rparr>)"


text \<open>
  The array \<^verbatim>\<open>promptParts\<close> when the loop has ended.
\<close>

definition promptParts :: "ChatMessage list \<Rightarrow> exception + jsstring list" where
  "promptParts messages =
     (case collectParts messages ([], []) of
        Inl e \<Rightarrow> Inl e
      | Inr (sp, pp) \<Rightarrow> Inr pp)"


section \<open>Adapter\<close>

record OpenAIChatRequest =
  model :: jsstring
  messages :: "ChatMessage list"
  user :: "jsstring option"

record CliInput = PromptPair +
  model :: PropertyValue
  sessionId :: "jsstring option"

definition openaiToCli :: "OpenAIChatRequest \<Rightarrow> exception + CliInput" where
  "openaiToCli request =
     (case messagesToPrompt (messages request) of
        Inl e \<Rightarrow> Inl e
      | Inr p \<Rightarrow>
          Inr \<lparr> prompt = prompt p,
                systemPrompt = systemPrompt p,
                model = extractModel (OpenAIChatRequest.model request),
                sessionId = user request \<rparr>)"


text \<open>
  A content block as section 3 of the specification and the declared parameter type of
  \<^verbatim>\<open>extractText\<close> have it, \<^verbatim>\<open>{ type: string; text?: string }\<close>, and the object that
  carries it.
\<close>

record ContentBlock =
  type :: jsstring
  "text" :: "jsstring option"



section \<open>Auxiliary facts\<close>

lemma role_literals_distinct:
  "js ''system'' \<noteq> js ''user''" "js ''system'' \<noteq> js ''assistant''"
  "js ''user'' \<noteq> js ''assistant''"
  by (simp_all add: js_def)

lemma exception_is_TypeError: "(e :: exception) = TypeError"
  by (cases e) simp


lemma collectParts_closed:
  "collectParts ms (sp, pp) =
     (if \<forall>m\<in>set ms. extractText (content m) \<noteq> Inl TypeError then
        Inr (sp @ map (\<lambda>m. projr (extractText (content m)))
                    (filter (\<lambda>m. role m = js ''system'') ms),
             pp @ map (\<lambda>m. if role m = js ''assistant''
                            then previous_response (projr (extractText (content m)))
                            else projr (extractText (content m)))
                    (filter (\<lambda>m. role m = js ''user'' \<or> role m = js ''assistant'') ms))
      else Inl TypeError)"
proof (induction ms arbitrary: sp pp)
  case Nil
  show ?case by simp
next
  case (Cons m ms)
  show ?case
  proof (cases "extractText (content m)")
    case (Inl e)
    then show ?thesis by (simp add: exception_is_TypeError[of e])
  next
    case (Inr t)
    then show ?thesis by (simp add: Cons.IH role_literals_distinct)
  qed
qed

lemma messagesToPrompt_closed:
  "messagesToPrompt ms =
     (if \<forall>m\<in>set ms. extractText (content m) \<noteq> Inl TypeError then
        Inr \<lparr> prompt = trim (join (js ''\<newline>'')
                  (map (\<lambda>m. if role m = js ''assistant''
                             then previous_response (projr (extractText (content m)))
                             else projr (extractText (content m)))
                     (filter (\<lambda>m. role m = js ''user'' \<or> role m = js ''assistant'') ms))),
              systemPrompt =
                (if filter (\<lambda>m. role m = js ''system'') ms = [] then None
                 else Some (join (js ''\<newline>\<newline>'')
                   (map (\<lambda>m. projr (extractText (content m)))
                      (filter (\<lambda>m. role m = js ''system'') ms)))) \<rparr>
      else Inl TypeError)"
  by (simp add: messagesToPrompt_def collectParts_closed)

lemma join_Cons: "join sep (x # xs) = (if xs = [] then x else x @ sep @ join sep xs)"
  by (cases xs) simp_all

lemma join_append:
  "xs \<noteq> [] \<Longrightarrow> ys \<noteq> [] \<Longrightarrow> join sep (xs @ ys) = join sep xs @ sep @ join sep ys"
  by (induction xs) (simp_all add: join_Cons)


lemma trim_between:
  assumes "\<exists>c\<in>set a. \<not> isWhiteSpace c" and "\<exists>c\<in>set b. \<not> isWhiteSpace c"
  shows "trim (a @ mid @ b) = trimStart a @ mid @ trimEnd b"
proof -
  from assms obtain x y where x: "x \<in> set a" "\<not> isWhiteSpace x"
    and y: "y \<in> set b" "\<not> isWhiteSpace y" by blast
  have "trimStart (a @ mid @ b) = trimStart a @ mid @ b"
    unfolding trimStart_def using x by (simp add: dropWhile_append1)
  moreover have "trimEnd (trimStart a @ mid @ b) = trimStart a @ mid @ trimEnd b"
  proof -
    have "y \<in> set (rev b)" using y by simp
    then have "dropWhile isWhiteSpace (rev b @ rev mid @ rev (trimStart a))
             = dropWhile isWhiteSpace (rev b) @ rev mid @ rev (trimStart a)"
      using y(2) by (simp add: dropWhile_append1)
    then show ?thesis by (simp add: trimEnd_def)
  qed
  ultimately show ?thesis by (simp add: trim_def)
qed

lemma trim_decompose:
  "\<exists>a b. s = a @ trim s @ b \<and> (\<forall>c\<in>set a. isWhiteSpace c) \<and> (\<forall>c\<in>set b. isWhiteSpace c)"
proof -
  let ?a = "takeWhile isWhiteSpace s"
  let ?t = "dropWhile isWhiteSpace s"
  let ?b = "rev (takeWhile isWhiteSpace (rev ?t))"
  have "?t = trim s @ ?b"
    unfolding trim_def trimEnd_def trimStart_def
    by (metis rev_append rev_rev_ident takeWhile_dropWhile_id)
  then have "s = ?a @ trim s @ ?b"
    by (metis takeWhile_dropWhile_id)
  moreover have "\<forall>c\<in>set ?a. isWhiteSpace c" by (auto dest: set_takeWhileD)
  moreover have "\<forall>c\<in>set ?b. isWhiteSpace c" by (auto dest: set_takeWhileD)
  ultimately show ?thesis by blast
qed

lemma trim_ends:
  "trim s \<noteq> [] \<Longrightarrow> \<not> isWhiteSpace (hd (trim s)) \<and> \<not> isWhiteSpace (last (trim s))"
proof -
  assume ne: "trim s \<noteq> []"
  have "\<not> isWhiteSpace (hd (rev (trim s)))"
    using ne unfolding trim_def trimEnd_def by (simp add: hd_dropWhile)
  then have l: "\<not> isWhiteSpace (last (trim s))" using ne by (simp add: hd_rev)
  have "trimStart s \<noteq> []" using ne by (auto simp: trim_def trimEnd_def)
  then have h: "\<not> isWhiteSpace (hd (trimStart s))" by (simp add: trimStart_def hd_dropWhile)
  have "trimStart s = trim s @ rev (takeWhile isWhiteSpace (rev (trimStart s)))"
    unfolding trim_def trimEnd_def
    by (metis rev_append rev_rev_ident takeWhile_dropWhile_id)
  then have "hd (trimStart s) = hd (trim s)" using ne by (metis hd_append2)
  with h l show ?thesis by simp
qed

lemma isWhiteSpace_iff:
  "isWhiteSpace c \<longleftrightarrow>
     c \<in> {0x0009, 0x000A, 0x000B, 0x000C, 0x000D, 0x0020, 0x00A0, 0x1680,
          0x2028, 0x2029, 0x202F, 0x205F, 0x3000, 0xFEFF} \<union> {0x2000 .. 0x200A}"
  by (auto simp: isWhiteSpace_def)

lemma sublist_trim:
  assumes "sublist core s" and "core \<noteq> []"
    and "\<not> isWhiteSpace (hd core)" and "\<not> isWhiteSpace (last core)"
  shows "sublist core (trim s)"
proof -
  from assms(1) obtain x y where s: "s = x @ core @ y" by (auto simp: sublist_def)
  from assms(2,3) have h: "hd core \<in> set core" "\<not> isWhiteSpace (hd core)" by simp_all
  from assms(2,4) have l: "last core \<in> set core" "\<not> isWhiteSpace (last core)" by simp_all
  have "\<exists>x'. trimStart s = x' @ core @ y"
  proof (cases "\<forall>c\<in>set x. isWhiteSpace c")
    case True
    then have "dropWhile isWhiteSpace (x @ core @ y) = dropWhile isWhiteSpace (core @ y)"
      by (simp add: dropWhile_append2)
    also have "\<dots> = dropWhile isWhiteSpace core @ y"
      using h by (simp add: dropWhile_append1)
    also have "dropWhile isWhiteSpace core = core"
      using assms(2,3) by (cases core) simp_all
    finally show ?thesis by (auto simp: trimStart_def s intro: exI[of _ "[]"])
  next
    case False
    then obtain c where "c \<in> set x" "\<not> isWhiteSpace c" by blast
    then have "dropWhile isWhiteSpace (x @ core @ y) = dropWhile isWhiteSpace x @ core @ y"
      by (simp add: dropWhile_append1)
    then show ?thesis by (auto simp: trimStart_def s)
  qed
  then obtain x' where ts: "trimStart s = x' @ core @ y" ..
  have "\<exists>y'. trimEnd (x' @ core @ y) = x' @ core @ y'"
  proof (cases "\<forall>c\<in>set y. isWhiteSpace c")
    case True
    then have "\<And>c. c \<in> set (rev y) \<Longrightarrow> isWhiteSpace c" by simp
    then have "dropWhile isWhiteSpace (rev y @ rev core @ rev x')
        = dropWhile isWhiteSpace (rev core @ rev x')"
      by (rule dropWhile_append2)
    also have "\<dots> = dropWhile isWhiteSpace (rev core) @ rev x'"
      using l by (simp add: dropWhile_append1)
    also have "dropWhile isWhiteSpace (rev core) = rev core"
      using assms(2,4) by (cases "rev core") (simp_all add: last_rev hd_rev[symmetric])
    finally show ?thesis by (auto simp: trimEnd_def intro: exI[of _ "[]"])
  next
    case False
    then obtain c where "c \<in> set (rev y)" "\<not> isWhiteSpace c" by auto
    then have "dropWhile isWhiteSpace (rev y @ rev core @ rev x')
        = dropWhile isWhiteSpace (rev y) @ rev core @ rev x'"
      by (simp add: dropWhile_append1)
    then show ?thesis by (auto simp: trimEnd_def)
  qed
  then obtain y' where "trimEnd (x' @ core @ y) = x' @ core @ y'" ..
  with ts have "trim s = x' @ core @ y'" by (simp add: trim_def)
  then show ?thesis by (auto simp: sublist_def)
qed

lemma sublist_join:
  "x \<in> set xs \<Longrightarrow> sublist x (join sep xs)"
proof (induction xs)
  case Nil
  then show ?case by simp
next
  case (Cons y ys)
  show ?case
  proof (cases "x = y")
    case True
    then show ?thesis by (simp add: join_Cons)
  next
    case False
    with Cons.prems have "x \<in> set ys" by simp
    then have "sublist x (join sep ys)" by (rule Cons.IH)
    moreover from \<open>x \<in> set ys\<close> have "ys \<noteq> []" by auto
    ultimately show ?thesis
      by (simp add: join_Cons sublist_append)
  qed
qed

lemma previous_response_empty:
  "previous_response [] = js ''<previous_response>\<newline>\<newline></previous_response>\<newline>''"
  by (simp add: previous_response_def js_def)

lemmas resolver_defs =
  extractModel_def MODEL_MAP_get_def MODEL_MAP_def ObjectPrototype_def
  stripProviderPrefix_def js_def

lemma MODEL_MAP_get_range:
  "MODEL_MAP_get k = Some v \<Longrightarrow>
     v \<in> {Tier opus, Tier sonnet, Tier haiku} \<or> (k \<in> set ObjectPrototype \<and> v = Inherited k)"
  by (auto simp: MODEL_MAP_get_def MODEL_MAP_def split: option.splits if_splits)

lemma map_of_MODEL_MAP: "map_of MODEL_MAP = tier_table_spec"
  by (rule ext) (simp add: MODEL_MAP_def tier_table_spec_def js_def)

lemma extractModel_own_keys:
  assumes "m \<notin> set ObjectPrototype" and "stripProviderPrefix m \<notin> set ObjectPrototype"
  shows "extractModel m = Tier (extractModel_spec m)"
  using assms
  by (simp add: extractModel_def extractModel_spec_def MODEL_MAP_get_def map_of_MODEL_MAP
      split: option.splits)

text \<open>
  On every input the resolver returns a tier or a member inherited from
  \<^verbatim>\<open>Object.prototype\<close>; it returns a tier whenever neither the input nor the input without
  its prefix names such a member.
\<close>

lemma extractModel_range:
  "extractModel m \<in> {Tier opus, Tier sonnet, Tier haiku}
   \<or> (\<exists>k\<in>set ObjectPrototype. extractModel m = Inherited k)"
proof (cases "MODEL_MAP_get m")
  case (Some v)
  then show ?thesis
    using MODEL_MAP_get_range[OF Some] by (auto simp: extractModel_def)
next
  case None
  show ?thesis
  proof (cases "MODEL_MAP_get (stripProviderPrefix m)")
    case inner: None
    with None show ?thesis by (simp add: extractModel_def)
  next
    case inner: (Some v)
    with None show ?thesis
      using MODEL_MAP_get_range[OF inner] by (auto simp: extractModel_def)
  qed
qed

lemma extractModel_examples:
  "extractModel (js ''claude-sonnet-4'') = Tier sonnet"
  "extractModel (js ''claude-code-cli/claude-haiku-4'') = Tier haiku"
  "extractModel (js ''gpt-4'') = Tier opus"
  by (simp_all add: resolver_defs)










lemmas flattener_defs =
  messagesToPrompt_def previous_response_def isTextBlock_def joinValues_def
  trim_def trimStart_def trimEnd_def isWhiteSpace_def js_def

lemma promptParts_closed:
  "promptParts ms =
     (if \<forall>m\<in>set ms. extractText (content m) \<noteq> Inl TypeError then
        Inr (map (\<lambda>m. if role m = js ''assistant''
                       then previous_response (projr (extractText (content m)))
                       else projr (extractText (content m)))
               (filter (\<lambda>m. role m = js ''user'' \<or> role m = js ''assistant'') ms))
      else Inl TypeError)"
  by (simp add: promptParts_def collectParts_closed)

lemma messagesToPrompt_promptParts:
  "promptParts ms = Inr ps \<Longrightarrow>
     \<exists>p. messagesToPrompt ms = Inr p \<and> prompt p = trim (join (js ''\<newline>'') ps)"
  by (auto simp: promptParts_closed messagesToPrompt_closed split: if_splits)

lemma messagesToPrompt_returns:
  assumes "\<forall>m\<in>set ms. extractText (content m) \<noteq> Inl TypeError"
  shows "\<exists>p. messagesToPrompt ms = Inr p
    \<and> prompt p = trim (join (js ''\<newline>'')
           (map (\<lambda>m. if role m = js ''assistant''
                      then previous_response (projr (extractText (content m)))
                      else projr (extractText (content m)))
              (filter (\<lambda>m. role m = js ''user'' \<or> role m = js ''assistant'') ms)))
    \<and> systemPrompt p =
           (if filter (\<lambda>m. role m = js ''system'') ms = [] then None
            else Some (join (js ''\<newline>\<newline>'')
              (map (\<lambda>m. projr (extractText (content m)))
                 (filter (\<lambda>m. role m = js ''system'') ms))))"
  using assms by (simp add: messagesToPrompt_closed)

lemma trim_characterised_in:
  assumes ws: "\<And>c. isWhiteSpace c \<longleftrightarrow> c \<in> WS"
  shows "\<exists>a b. s = a @ trim s @ b \<and> set a \<subseteq> WS \<and> set b \<subseteq> WS
     \<and> (trim s = [] \<or> hd (trim s) \<notin> WS \<and> last (trim s) \<notin> WS)"
proof -
  from trim_decompose[of s] obtain a b where
    ab: "s = a @ trim s @ b" "\<forall>c\<in>set a. isWhiteSpace c" "\<forall>c\<in>set b. isWhiteSpace c"
    by blast
  have sa: "set a \<subseteq> WS" and sb: "set b \<subseteq> WS"
    using ab(2,3) ws by blast+
  have ends: "trim s = [] \<or> hd (trim s) \<notin> WS \<and> last (trim s) \<notin> WS"
    using trim_ends[of s] ws by blast
  from ab(1) sa sb ends show ?thesis by blast
qed

lemma promptParts_Inr:
  assumes "promptParts ms = Inr ps"
  shows "\<forall>m\<in>set ms. extractText (content m) \<noteq> Inl TypeError"
    and "ps = map (\<lambda>m. if role m = js ''assistant''
                       then previous_response (projr (extractText (content m)))
                       else projr (extractText (content m)))
               (filter (\<lambda>m. role m = js ''user'' \<or> role m = js ''assistant'') ms)"
  using assms by (auto simp: promptParts_closed split: if_splits)

lemma block_core:
  "js ''<previous_response>\<newline>\<newline></previous_response>\<newline>''
     = js ''<previous_response>\<newline>\<newline></previous_response>'' @ js ''\<newline>''"
  "js ''<previous_response>\<newline>\<newline></previous_response>'' \<noteq> []"
  "\<not> isWhiteSpace (hd (js ''<previous_response>\<newline>\<newline></previous_response>''))"
  "\<not> isWhiteSpace (last (js ''<previous_response>\<newline>\<newline></previous_response>''))"
  "hd (js ''<previous_response>\<newline>\<newline></previous_response>\<newline>'' @ xs)
     = hd (js ''<previous_response>\<newline>\<newline></previous_response>'')"
  by (simp_all add: js_def isWhiteSpace_def)


section \<open>Claims about the model resolver\<close>

text \<open>
  C1. The claim: for every input string, \<^verbatim>\<open>extractModel\<close> returns one of the three tiers
  and nothing else, and never throws. The function never throws, but on the input
  \<^verbatim>\<open>"constructor"\<close> the read \<^verbatim>\<open>MODEL_MAP["constructor"]\<close> finds the member inherited from
  \<^verbatim>\<open>Object.prototype\<close>, which is truthy, and the function returns it: a function object,
  not a tier, against the declared return type \<^verbatim>\<open>ClaudeModel\<close>.
\<close>

theorem extractModel_constructor:
  "extractModel (js ''constructor'') = Inherited (js ''constructor'')"
  by (simp add: resolver_defs)

text \<open>
  C4. The claim: \<^verbatim>\<open>extractModel\<close> looks the input up in the fixed table, then looks up the
  input without its leading \<^verbatim>\<open>claude-code-cli/\<close>, then returns the default tier. The three
  examples of the claim hold (\<open>extractModel_examples\<close>), and the code agrees with the
  two-stage lookup on every input that keeps clear of the inherited members
  (\<open>extractModel_own_keys\<close>). On \<^verbatim>\<open>"claude-code-cli/toString"\<close> the second read finds the
  inherited \<^verbatim>\<open>toString\<close> and the code returns it, where the two-stage lookup on the table
  gives the default tier.
\<close>

theorem extractModel_prefixed_toString:
  "extractModel (js ''claude-code-cli/toString'') = Inherited (js ''toString'')
   \<and> extractModel_spec (js ''claude-code-cli/toString'') = opus"
  by (simp add: resolver_defs extractModel_spec_def tier_table_spec_def)


section \<open>Claims about the message flattener\<close>




text \<open>
  C3. Each assistant text is wrapped in the \<^verbatim>\<open>previous_response\<close> tags and takes its
  place among the user texts in input order; the parts are joined by a newline, and the
  prompt is what remains of the joined string when its leading and trailing white space
  is taken away: the joined string is the prompt between two runs of white space, and the
  prompt neither starts nor ends with white space. White space is spelt out as the code
  units of the ECMAScript productions WhiteSpace and LineTerminator. The conversation
  \<^verbatim>\<open>hi\<close>, \<^verbatim>\<open>hello\<close>, \<^verbatim>\<open>more\<close> gives the prompt of the claim; a user text with a leading
  space and tab before an assistant text loses them, and the final newline with them.
\<close>

theorem prompt_joined_trimmed:
  "(let WS = {0x0009, 0x000A, 0x000B, 0x000C, 0x000D, 0x0020, 0x00A0, 0x1680,
              0x2028, 0x2029, 0x202F, 0x205F, 0x3000, 0xFEFF} \<union> {0x2000 .. 0x200A}
    in (\<forall>m\<in>set ms. extractText (content m) \<noteq> Inl TypeError) \<longrightarrow>
       (\<exists>p a b. messagesToPrompt ms = Inr p
          \<and> join (js ''\<newline>'')
               (map (\<lambda>m. if role m = js ''assistant''
                          then js ''<previous_response>\<newline>''
                                 @ projr (extractText (content m))
                                 @ js ''\<newline></previous_response>\<newline>''
                          else projr (extractText (content m)))
                  (filter (\<lambda>m. role m = js ''user'' \<or> role m = js ''assistant'') ms))
              = a @ prompt p @ b
          \<and> set a \<subseteq> WS \<and> set b \<subseteq> WS
          \<and> (prompt p = [] \<or> hd (prompt p) \<notin> WS \<and> last (prompt p) \<notin> WS)))
   \<and> messagesToPrompt
        [\<lparr>role = js ''user'', content = JString (js ''hi'')\<rparr>,
         \<lparr>role = js ''assistant'', content = JString (js ''hello'')\<rparr>,
         \<lparr>role = js ''user'', content = JString (js ''more'')\<rparr>]
     = Inr \<lparr>prompt = js ''hi\<newline><previous_response>\<newline>hello\<newline></previous_response>\<newline>\<newline>more'',
            systemPrompt = None\<rparr>
   \<and> messagesToPrompt
        [\<lparr>role = js ''user'', content = JString ([0x0020, 0x0009] @ js ''hi '')\<rparr>,
         \<lparr>role = js ''assistant'', content = JString (js ''ok'')\<rparr>]
     = Inr \<lparr>prompt = js ''hi \<newline><previous_response>\<newline>ok\<newline></previous_response>'',
            systemPrompt = None\<rparr>"
proof -
  define WS :: "jschar set" where
    "WS = {0x0009, 0x000A, 0x000B, 0x000C, 0x000D, 0x0020, 0x00A0, 0x1680,
           0x2028, 0x2029, 0x202F, 0x205F, 0x3000, 0xFEFF} \<union> {0x2000 .. 0x200A}"
  define J where
    "J = join (js ''\<newline>'')
               (map (\<lambda>m. if role m = js ''assistant''
                          then js ''<previous_response>\<newline>''
                                 @ projr (extractText (content m))
                                 @ js ''\<newline></previous_response>\<newline>''
                          else projr (extractText (content m)))
                  (filter (\<lambda>m. role m = js ''user'' \<or> role m = js ''assistant'') ms))"
  have ws: "\<And>c. isWhiteSpace c \<longleftrightarrow> c \<in> WS"
    unfolding WS_def by (rule isWhiteSpace_iff)
  have general: "(\<forall>m\<in>set ms. extractText (content m) \<noteq> Inl TypeError) \<longrightarrow>
       (\<exists>p a b. messagesToPrompt ms = Inr p \<and> J = a @ prompt p @ b
          \<and> set a \<subseteq> WS \<and> set b \<subseteq> WS
          \<and> (prompt p = [] \<or> hd (prompt p) \<notin> WS \<and> last (prompt p) \<notin> WS))"
  proof
    assume ok: "\<forall>m\<in>set ms. extractText (content m) \<noteq> Inl TypeError"
    from messagesToPrompt_returns[OF ok] obtain p where
      ret: "messagesToPrompt ms = Inr p" and
      pr: "prompt p = trim (join (js ''\<newline>'')
           (map (\<lambda>m. if role m = js ''assistant''
                      then previous_response (projr (extractText (content m)))
                      else projr (extractText (content m)))
              (filter (\<lambda>m. role m = js ''user'' \<or> role m = js ''assistant'') ms)))"
      by blast
    have "prompt p = trim J"
      unfolding pr J_def by (simp add: previous_response_def cong: if_cong)
    with trim_characterised_in[OF ws, of J] ret
    show "\<exists>p a b. messagesToPrompt ms = Inr p \<and> J = a @ prompt p @ b
          \<and> set a \<subseteq> WS \<and> set b \<subseteq> WS
          \<and> (prompt p = [] \<or> hd (prompt p) \<notin> WS \<and> last (prompt p) \<notin> WS)"
      by auto
  qed
  have ex1: "messagesToPrompt
        [\<lparr>role = js ''user'', content = JString (js ''hi'')\<rparr>,
         \<lparr>role = js ''assistant'', content = JString (js ''hello'')\<rparr>,
         \<lparr>role = js ''user'', content = JString (js ''more'')\<rparr>]
     = Inr \<lparr>prompt = js ''hi\<newline><previous_response>\<newline>hello\<newline></previous_response>\<newline>\<newline>more'',
            systemPrompt = None\<rparr>"
    by (simp add: flattener_defs)
  have ex2: "messagesToPrompt
        [\<lparr>role = js ''user'', content = JString ([0x0020, 0x0009] @ js ''hi '')\<rparr>,
         \<lparr>role = js ''assistant'', content = JString (js ''ok'')\<rparr>]
     = Inr \<lparr>prompt = js ''hi \<newline><previous_response>\<newline>ok\<newline></previous_response>'',
            systemPrompt = None\<rparr>"
    by (simp add: flattener_defs)
  show ?thesis
    unfolding Let_def
    by (rule conjI[OF general[unfolded WS_def J_def] conjI[OF ex1 ex2]])
qed

theorem prompt_joined_trimmed_witness:
  "messagesToPrompt
     [\<lparr>role = js ''user'',
       content = JString
         ([0x0009, 0x000A, 0x000B, 0x000C, 0x000D, 0x0020, 0x00A0, 0x1680, 0x2000, 0x2001,
           0x2002, 0x2003, 0x2004, 0x2005, 0x2006, 0x2007, 0x2008, 0x2009, 0x200A, 0x2028,
           0x2029, 0x202F, 0x205F, 0x3000, 0xFEFF]
          @ js ''x y''
          @ [0xFEFF, 0x3000, 0x205F, 0x202F, 0x2029, 0x2028, 0x200A, 0x2009, 0x2008, 0x2007,
             0x2006, 0x2005, 0x2004, 0x2003, 0x2002, 0x2001, 0x2000, 0x1680, 0x00A0, 0x0020,
             0x000D, 0x000C, 0x000B, 0x000A, 0x0009])\<rparr>]
     = Inr \<lparr>prompt = js ''x y'', systemPrompt = None\<rparr>
   \<and> messagesToPrompt
     [\<lparr>role = js ''assistant'', content = JBoolean True\<rparr>,
      \<lparr>role = js ''user'', content = JString ([0x200B] @ js '' a '' @ [0x0085])\<rparr>]
     = Inr \<lparr>prompt = js ''<previous_response>\<newline>true\<newline></previous_response>\<newline>\<newline>''
                       @ [0x200B] @ js '' a '' @ [0x0085],
            systemPrompt = None\<rparr>"
  using prompt_joined_trimmed
      [of "[\<lparr>role = js ''assistant'', content = JBoolean True\<rparr>,
            \<lparr>role = js ''user'', content = JString ([0x200B] @ js '' a '' @ [0x0085])\<rparr>]"]
  by (simp add: flattener_defs)

text \<open>
  C5. On every message sequence whose texts can be extracted, the system prompt is the
  extracted texts of the system messages, in input order, joined by two newlines when
  there is such a message, and absent when there is none; two system messages \<^verbatim>\<open>A\<close> and
  \<^verbatim>\<open>B\<close> give \<^verbatim>\<open>A\<close>, a blank line, \<^verbatim>\<open>B\<close>.
\<close>

theorem systemPrompt_joined:
  "((\<forall>m\<in>set ms. extractText (content m) \<noteq> Inl TypeError) \<longrightarrow>
     (\<exists>p. messagesToPrompt ms = Inr p
        \<and> (filter (\<lambda>m. role m = js ''system'') ms \<noteq> [] \<longrightarrow>
             systemPrompt p =
               Some (join (js ''\<newline>\<newline>'')
                 (map (\<lambda>m. projr (extractText (content m)))
                    (filter (\<lambda>m. role m = js ''system'') ms))))
        \<and> (filter (\<lambda>m. role m = js ''system'') ms = [] \<longrightarrow> systemPrompt p = None)))
   \<and> messagesToPrompt
        [\<lparr>role = js ''system'', content = JString (js ''A'')\<rparr>,
         \<lparr>role = js ''system'', content = JString (js ''B'')\<rparr>]
     = Inr \<lparr>prompt = js '''', systemPrompt = Some (js ''A\<newline>\<newline>B'')\<rparr>"
  by (simp add: messagesToPrompt_closed) (simp add: trim_def trimStart_def trimEnd_def js_def)

theorem systemPrompt_joined_witness:
  "messagesToPrompt
      [\<lparr>role = js ''user'', content = JString (js ''q'')\<rparr>,
       \<lparr>role = js ''system'', content = JString (js ''be brief'')\<rparr>,
       \<lparr>role = js ''system'', content = JNull\<rparr>]
     = Inr \<lparr>prompt = js ''q'', systemPrompt = Some (js ''be brief\<newline>\<newline>null'')\<rparr>
   \<and> messagesToPrompt [\<lparr>role = js ''user'', content = JString (js ''q'')\<rparr>]
     = Inr \<lparr>prompt = js ''q'', systemPrompt = None\<rparr>"
  using systemPrompt_joined
      [of "[\<lparr>role = js ''user'', content = JString (js ''q'')\<rparr>,
            \<lparr>role = js ''system'', content = JString (js ''be brief'')\<rparr>,
            \<lparr>role = js ''system'', content = JNull\<rparr>]"]
    systemPrompt_joined [of "[\<lparr>role = js ''user'', content = JString (js ''q'')\<rparr>]"]
  by (simp add: flattener_defs)




text \<open>
  C7. The claim: messages with a role other than \<^verbatim>\<open>system\<close>, \<^verbatim>\<open>user\<close> and \<^verbatim>\<open>assistant\<close>
  are ignored without error, so that removing them changes nothing. It fails for a
  \<^verbatim>\<open>tool\<close> message whose content is \<^verbatim>\<open>[null]\<close>: the source extracts the text of every
  message before it looks at the role, and throws; without the message it returns a pair.
\<close>

theorem other_roles_throw_counterexample:
  "messagesToPrompt [\<lparr>role = js ''tool'', content = JArray [JNull]\<rparr>] = Inl TypeError
   \<and> messagesToPrompt
       (filter (\<lambda>m. role m \<in> {js ''system'', js ''user'', js ''assistant''})
          [\<lparr>role = js ''tool'', content = JArray [JNull]\<rparr>])
     = Inr \<lparr>prompt = js '''', systemPrompt = None\<rparr>"
  by (simp add: flattener_defs)

text \<open>
  C7, amended. When text extraction succeeds on every message with a role other than
  \<^verbatim>\<open>system\<close>, \<^verbatim>\<open>user\<close> and \<^verbatim>\<open>assistant\<close>, \<^verbatim>\<open>messagesToPrompt\<close> does on the sequence what it
  does on the sequence without these messages: the same pair, or the same exception.
  When text extraction throws on a message, whatever its role, \<^verbatim>\<open>messagesToPrompt\<close> throws
  a \<^verbatim>\<open>TypeError\<close>.
\<close>

theorem other_roles_ignored:
  "((\<forall>m\<in>set ms. role m \<in> {js ''system'', js ''user'', js ''assistant''}
        \<or> extractText (content m) \<noteq> Inl TypeError) \<longrightarrow>
      messagesToPrompt ms =
        messagesToPrompt
          (filter (\<lambda>m. role m \<in> {js ''system'', js ''user'', js ''assistant''}) ms))
   \<and> ((\<exists>m\<in>set ms. extractText (content m) = Inl TypeError) \<longrightarrow>
        messagesToPrompt ms = Inl TypeError)"
proof (intro conjI impI)
  let ?K = "\<lambda>m. role m \<in> {js ''system'', js ''user'', js ''assistant''}"
  assume h: "\<forall>m\<in>set ms. ?K m \<or> extractText (content m) \<noteq> Inl TypeError"
  have ok: "(\<forall>m\<in>set (filter ?K ms). extractText (content m) \<noteq> Inl TypeError)
      \<longleftrightarrow> (\<forall>m\<in>set ms. extractText (content m) \<noteq> Inl TypeError)"
    using h by auto
  have s: "filter (\<lambda>m. role m = js ''system'') (filter ?K ms)
      = filter (\<lambda>m. role m = js ''system'') ms"
    by (induction ms) simp_all
  have u: "filter (\<lambda>m. role m = js ''user'' \<or> role m = js ''assistant'') (filter ?K ms)
      = filter (\<lambda>m. role m = js ''user'' \<or> role m = js ''assistant'') ms"
    by (induction ms) simp_all
  show "messagesToPrompt ms = messagesToPrompt (filter ?K ms)"
    unfolding messagesToPrompt_closed[of ms] messagesToPrompt_closed[of "filter ?K ms"]
      ok s u ..
next
  assume "\<exists>m\<in>set ms. extractText (content m) = Inl TypeError"
  then show "messagesToPrompt ms = Inl TypeError"
    by (auto simp: messagesToPrompt_closed)
qed

theorem other_roles_ignored_witness:
  "messagesToPrompt
     [\<lparr>role = js ''tool'', content = JNull\<rparr>,
      \<lparr>role = js ''user'', content = JString (js ''hi'')\<rparr>,
      \<lparr>role = js ''function'', content = JString (js ''42'')\<rparr>]
   = messagesToPrompt [\<lparr>role = js ''user'', content = JString (js ''hi'')\<rparr>]
   \<and> messagesToPrompt
     [\<lparr>role = js ''user'', content = JString (js ''hi'')\<rparr>,
      \<lparr>role = js ''tool'', content = JArray [JUndefined]\<rparr>] = Inl TypeError"
  using other_roles_ignored [of
     "[\<lparr>role = js ''tool'', content = JNull\<rparr>,
      \<lparr>role = js ''user'', content = JString (js ''hi'')\<rparr>,
      \<lparr>role = js ''function'', content = JString (js ''42'')\<rparr>]"]
    other_roles_ignored [of
     "[\<lparr>role = js ''user'', content = JString (js ''hi'')\<rparr>,
      \<lparr>role = js ''tool'', content = JArray [JUndefined]\<rparr>]"]
  by (simp add: js_def isTextBlock_def)

text \<open>
  C10. The claim: a user or assistant message with empty text is not skipped, the
  assistant block occurs in the joined prompt, and an interior empty-text message leaves
  a blank line that the final trim does not remove. The last part fails when the parts on
  one side hold white space only: of three user messages with the texts empty, empty and
  \<^verbatim>\<open>b\<close> the prompt is \<^verbatim>\<open>b\<close>; and an assistant block at the end loses its final newline
  to the trim.
\<close>

theorem interior_blank_line_counterexample:
  "messagesToPrompt
     [\<lparr>role = js ''user'', content = JString (js '''')\<rparr>,
      \<lparr>role = js ''user'', content = JString (js '''')\<rparr>,
      \<lparr>role = js ''user'', content = JString (js ''b'')\<rparr>]
     = Inr \<lparr>prompt = js ''b'', systemPrompt = None\<rparr>
   \<and> messagesToPrompt
     [\<lparr>role = js ''user'', content = JString (js '' '')\<rparr>,
      \<lparr>role = js ''assistant'', content = JString (js '''')\<rparr>]
     = Inr \<lparr>prompt = js ''<previous_response>\<newline>\<newline></previous_response>'',
            systemPrompt = None\<rparr>"
  by (simp add: flattener_defs)

text \<open>
  C10, amended. A user or assistant message with empty extracted text contributes its
  part at its place among the prompt parts: the empty string for a user message, the tags
  around an empty line for an assistant message. The assistant block occurs in the joined
  parts before the trim; in the prompt it occurs without its final newline, and in full
  when a later part holds a character that is not white space. When the parts before the
  message and the parts after it each hold a character that is not white space, the
  prompt keeps the part between its two separating newlines, so that an empty user text
  leaves a blank line.
\<close>

theorem empty_text_message_kept:
  assumes "role m = js ''user'' \<or> role m = js ''assistant''"
    and "extractText (content m) = Inr []"
    and "promptParts pre = Inr ps"
    and "promptParts post = Inr qs"
  shows "\<exists>p. promptParts (pre @ m # post) =
           Inr (ps @ (if role m = js ''assistant''
                      then js ''<previous_response>\<newline>\<newline></previous_response>\<newline>''
                      else []) # qs)
     \<and> messagesToPrompt (pre @ m # post) = Inr p
     \<and> (role m = js ''assistant'' \<longrightarrow>
          sublist (js ''<previous_response>\<newline>\<newline></previous_response>\<newline>'')
            (join (js ''\<newline>'')
               (ps @ js ''<previous_response>\<newline>\<newline></previous_response>\<newline>'' # qs))
          \<and> sublist (js ''<previous_response>\<newline>\<newline></previous_response>'') (prompt p)
          \<and> ((\<exists>c\<in>set (join (js ''\<newline>'') qs). \<not> isWhiteSpace c) \<longrightarrow>
               sublist (js ''<previous_response>\<newline>\<newline></previous_response>\<newline>'')
                 (prompt p)))
     \<and> ((\<exists>c\<in>set (join (js ''\<newline>'') ps). \<not> isWhiteSpace c)
          \<and> (\<exists>c\<in>set (join (js ''\<newline>'') qs). \<not> isWhiteSpace c) \<longrightarrow>
          prompt p =
            dropWhile isWhiteSpace (join (js ''\<newline>'') ps)
            @ js ''\<newline>''
            @ (if role m = js ''assistant''
               then js ''<previous_response>\<newline>\<newline></previous_response>\<newline>'' else [])
            @ js ''\<newline>''
            @ rev (dropWhile isWhiteSpace (rev (join (js ''\<newline>'') qs))))"
proof -
  define block where
    "block = js ''<previous_response>\<newline>\<newline></previous_response>\<newline>''"
  define core where "core = js ''<previous_response>\<newline>\<newline></previous_response>''"
  define nl where "nl = js ''\<newline>''"
  define part where "part = (if role m = js ''assistant'' then block else [])"
  define J where "J = join nl (ps @ part # qs)"
  note pre = promptParts_Inr[OF assms(3)] and post = promptParts_Inr[OF assms(4)]
  have bc: "block = core @ nl" "core \<noteq> []" "\<not> isWhiteSpace (hd core)"
    "\<not> isWhiteSpace (last core)"
    unfolding block_def core_def nl_def by (rule block_core)+
  have ok: "\<forall>x\<in>set (pre @ m # post). extractText (content x) \<noteq> Inl TypeError"
    using pre(1) post(1) assms(2) by auto
  have mpart: "(if role m = js ''assistant''
                then previous_response (projr (extractText (content m)))
                else projr (extractText (content m))) = part"
    unfolding part_def block_def by (simp add: assms(2) previous_response_empty)
  have parts: "promptParts (pre @ m # post) = Inr (ps @ part # qs)"
    using ok assms(1) mpart unfolding promptParts_closed pre(2) post(2) by simp
  from messagesToPrompt_promptParts[OF parts] obtain p where
    ret: "messagesToPrompt (pre @ m # post) = Inr p" and pr: "prompt p = trim J"
    unfolding J_def nl_def by blast
  have inJ: "sublist part J"
    unfolding J_def by (rule sublist_join) simp
  have assistant: "sublist block J \<and> sublist core (prompt p)
      \<and> ((\<exists>c\<in>set (join nl qs). \<not> isWhiteSpace c) \<longrightarrow> sublist block (prompt p))"
    if a: "role m = js ''assistant''"
  proof (intro conjI impI)
    from a have pb: "part = block" by (simp add: part_def)
    with inJ show bJ: "sublist block J" by simp
    have "sublist core block" unfolding bc(1) by simp
    with bJ have "sublist core J" by (rule sublist_order.order.trans[rotated])
    then show "sublist core (prompt p)"
      unfolding pr using bc(2,3,4) by (rule sublist_trim)
    assume "\<exists>c\<in>set (join nl qs). \<not> isWhiteSpace c"
    then obtain c where c: "c \<in> set (join nl qs)" "\<not> isWhiteSpace c" by blast
    then obtain q1 q2 where q: "join nl qs = q1 @ c # q2" by (auto simp: in_set_conv_decomp)
    from c(1) have qne: "qs \<noteq> []" by auto
    define core' where "core' = block @ nl @ q1 @ [c]"
    have tail: "join nl (block # qs) = core' @ q2"
      using qne by (simp add: join_Cons q core'_def)
    define X where "X = (if ps = [] then [] else join nl ps @ nl)"
    have "J = X @ join nl (block # qs)"
      unfolding J_def pb X_def by (cases "ps = []") (simp_all add: join_append)
    then have "J = X @ core' @ q2" unfolding tail .
    then have "sublist core' J" by simp
    moreover have "core' \<noteq> []" by (simp add: core'_def)
    moreover have "\<not> isWhiteSpace (hd core')"
      unfolding core'_def bc(1) using bc(2,3) by simp
    moreover have "\<not> isWhiteSpace (last core')"
      unfolding core'_def using c(2) by simp
    ultimately have "sublist core' (prompt p)" unfolding pr by (rule sublist_trim)
    moreover have "sublist block core'" unfolding core'_def by simp
    ultimately show "sublist block (prompt p)"
      by (rule sublist_order.order.trans[rotated])
  qed
  have interior: "prompt p =
      dropWhile isWhiteSpace (join nl ps) @ nl @ part @ nl
        @ rev (dropWhile isWhiteSpace (rev (join nl qs)))"
    if a: "\<exists>c\<in>set (join nl ps). \<not> isWhiteSpace c"
      and b: "\<exists>c\<in>set (join nl qs). \<not> isWhiteSpace c"
  proof -
    from a have pre_ne: "ps \<noteq> []" by auto
    from b have post_ne: "qs \<noteq> []" by auto
    have "J = join nl ps @ nl @ join nl (part # qs)"
      unfolding J_def using pre_ne by (simp add: join_append)
    also have "join nl (part # qs) = part @ nl @ join nl qs"
      using post_ne by (simp add: join_Cons)
    finally have "J = join nl ps @ (nl @ part @ nl) @ join nl qs"
      by simp
    then have "trim J = trimStart (join nl ps) @ (nl @ part @ nl) @ trimEnd (join nl qs)"
      using trim_between[OF a b, of "nl @ part @ nl"] by simp
    then show ?thesis by (simp add: pr trimStart_def trimEnd_def)
  qed
  show ?thesis
  proof (intro exI[of _ p] conjI impI)
    show "promptParts (pre @ m # post) =
           Inr (ps @ (if role m = js ''assistant''
                      then js ''<previous_response>\<newline>\<newline></previous_response>\<newline>''
                      else []) # qs)"
      using parts unfolding part_def block_def .
    show "messagesToPrompt (pre @ m # post) = Inr p" by (rule ret)
  next
    assume a: "role m = js ''assistant''"
    then have pb: "part = block" by (simp add: part_def)
    from assistant[OF a]
    show "sublist (js ''<previous_response>\<newline>\<newline></previous_response>\<newline>'')
            (join (js ''\<newline>'')
               (ps @ js ''<previous_response>\<newline>\<newline></previous_response>\<newline>'' # qs))"
      unfolding J_def pb block_def nl_def by (rule conjunct1)
    from assistant[OF a]
    show "sublist (js ''<previous_response>\<newline>\<newline></previous_response>'') (prompt p)"
      unfolding core_def by (rule conjunct1[OF conjunct2])
    assume "\<exists>c\<in>set (join (js ''\<newline>'') qs). \<not> isWhiteSpace c"
    with assistant[OF a]
    show "sublist (js ''<previous_response>\<newline>\<newline></previous_response>\<newline>'') (prompt p)"
      unfolding block_def nl_def by blast
  next
    assume "(\<exists>c\<in>set (join (js ''\<newline>'') ps). \<not> isWhiteSpace c)
          \<and> (\<exists>c\<in>set (join (js ''\<newline>'') qs). \<not> isWhiteSpace c)"
    then show "prompt p =
            dropWhile isWhiteSpace (join (js ''\<newline>'') ps)
            @ js ''\<newline>''
            @ (if role m = js ''assistant''
               then js ''<previous_response>\<newline>\<newline></previous_response>\<newline>'' else [])
            @ js ''\<newline>''
            @ rev (dropWhile isWhiteSpace (rev (join (js ''\<newline>'') qs)))"
      using interior unfolding part_def block_def nl_def by blast
  qed
qed

theorem empty_text_message_kept_witness:
  "messagesToPrompt
      [\<lparr>role = js ''user'', content = JString (js ''a'')\<rparr>,
       \<lparr>role = js ''user'', content = JArray []\<rparr>,
       \<lparr>role = js ''user'', content = JString (js ''b'')\<rparr>]
     = Inr \<lparr>prompt = js ''a\<newline>\<newline>b'', systemPrompt = None\<rparr>
   \<and> messagesToPrompt
      [\<lparr>role = js ''user'', content = JString (js ''a'')\<rparr>,
       \<lparr>role = js ''assistant'', content = JString (js '''')\<rparr>,
       \<lparr>role = js ''user'', content = JString (js ''b'')\<rparr>]
     = Inr \<lparr>prompt = js ''a\<newline><previous_response>\<newline>\<newline></previous_response>\<newline>\<newline>b'',
            systemPrompt = None\<rparr>"
proof -
  let ?a = "\<lparr>role = js ''user'', content = JString (js ''a'')\<rparr>"
  let ?b = "\<lparr>role = js ''user'', content = JString (js ''b'')\<rparr>"
  let ?u = "\<lparr>role = js ''user'', content = JArray []\<rparr>"
  let ?e = "\<lparr>role = js ''assistant'', content = JString (js '''')\<rparr>"
  have pa: "promptParts [?a] = Inr [js ''a'']"
    and pb: "promptParts [?b] = Inr [js ''b'']"
    by (simp_all add: promptParts_def js_def)
  have ru: "role ?u = js ''user'' \<or> role ?u = js ''assistant''"
    and re: "role ?e = js ''user'' \<or> role ?e = js ''assistant''"
    by simp_all
  have tu: "extractText (content ?u) = Inr []"
    and te: "extractText (content ?e) = Inr []"
    by (simp_all add: joinValues_def js_def)
  have wa: "\<exists>c\<in>set (join (js ''\<newline>'') [js ''a'']). \<not> isWhiteSpace c"
    and wb: "\<exists>c\<in>set (join (js ''\<newline>'') [js ''b'']). \<not> isWhiteSpace c"
    by (simp_all add: isWhiteSpace_def js_def)
  from empty_text_message_kept [OF ru tu pa pb] wa wb
  obtain p where p: "messagesToPrompt ([?a] @ ?u # [?b]) = Inr p"
    "prompt p = dropWhile isWhiteSpace (join (js ''\<newline>'') [js ''a''])
       @ js ''\<newline>'' @ [] @ js ''\<newline>''
       @ rev (dropWhile isWhiteSpace (rev (join (js ''\<newline>'') [js ''b''])))"
    by (auto simp: role_literals_distinct)
  from empty_text_message_kept [OF re te pa pb] wa wb
  obtain q where q: "messagesToPrompt ([?a] @ ?e # [?b]) = Inr q"
    "prompt q = dropWhile isWhiteSpace (join (js ''\<newline>'') [js ''a''])
       @ js ''\<newline>'' @ js ''<previous_response>\<newline>\<newline></previous_response>\<newline>''
       @ js ''\<newline>''
       @ rev (dropWhile isWhiteSpace (rev (join (js ''\<newline>'') [js ''b''])))"
    by (auto simp: role_literals_distinct)
  from p q show ?thesis by (simp add: flattener_defs)
qed


section \<open>Claims about the adapter\<close>

text \<open>
  C8. The session identifier of every result of \<^verbatim>\<open>openaiToCli\<close> is the \<^verbatim>\<open>user\<close> field of
  the request as it is: the same string when the field is present, absent when it is
  absent; and a result is returned whenever the texts of the messages can be extracted.
\<close>

theorem sessionId_is_user:
  "(openaiToCli request = Inr c \<longrightarrow> sessionId c = user request)
   \<and> ((\<forall>m\<in>set (messages request). extractText (content m) \<noteq> Inl TypeError) \<longrightarrow>
        (\<exists>c. openaiToCli request = Inr c \<and> sessionId c = user request))"
  by (auto simp: openaiToCli_def messagesToPrompt_closed split: sum.splits)

theorem sessionId_is_user_witness:
  "(\<exists>c. openaiToCli
        \<lparr>OpenAIChatRequest.model = js ''opus'', messages = [],
         user = Some (js '' any  token\<newline>'')\<rparr> = Inr c
      \<and> sessionId c = Some (js '' any  token\<newline>''))
   \<and> (\<exists>c. openaiToCli
        \<lparr>OpenAIChatRequest.model = js ''opus'',
         messages = [\<lparr>role = js ''user'', content = JString (js ''hi'')\<rparr>],
         user = None\<rparr> = Inr c
      \<and> sessionId c = None)"
  using sessionId_is_user [of
      "\<lparr>OpenAIChatRequest.model = js ''opus'', messages = [],
        user = Some (js '' any  token\<newline>'')\<rparr>"]
    sessionId_is_user [of
      "\<lparr>OpenAIChatRequest.model = js ''opus'',
        messages = [\<lparr>role = js ''user'', content = JString (js ''hi'')\<rparr>],
        user = None\<rparr>"]
  by simp

end
